theory Spec2Isabelle
  imports Main "HOL-Library.Word" "HOL-Library.Multiset"
begin

section \<open>JavaScript strings\<close>

text \<open>
  A JavaScript string is a sequence of UTF-16 code units, and \<open>length\<close>, \<open>slice\<close>,
  \<open>startsWith\<close> and the regular expressions of the source (none has the \<open>u\<close> flag) all
  count and compare code units.  A string is therefore a list of 16-bit words; \<open>js\<close>
  turns an ASCII literal into one.
\<close>

type_synonym jschar = "16 word"
type_synonym jsstring = "jschar list"

definition js :: "string \<Rightarrow> jsstring" where
  "js s = map of_char s"

text \<open>\<open>s.startsWith(p)\<close> and \<open>s.includes(p)\<close>.\<close>

fun startsWith :: "jsstring \<Rightarrow> jsstring \<Rightarrow> bool" where
  "startsWith s [] = True"
| "startsWith [] (p # ps) = False"
| "startsWith (c # cs) (p # ps) = (c = p \<and> startsWith cs ps)"

fun includes_js :: "jsstring \<Rightarrow> jsstring \<Rightarrow> bool" where
  "includes_js [] p = (p = [])"
| "includes_js (c # cs) p = (startsWith (c # cs) p \<or> includes_js cs p)"

text \<open>
  \<open>s.slice(0, n)\<close> for \<open>n \<ge> 0\<close>, on a string or an array, and \<open>s.substring(n)\<close>: the
  first \<open>n\<close> elements, respectively all but the first \<open>n\<close>; both clamp at the length.
\<close>

definition slice0 :: "nat \<Rightarrow> 'a list \<Rightarrow> 'a list" where
  "slice0 n s = take n s"

definition substring_from :: "nat \<Rightarrow> jsstring \<Rightarrow> jsstring" where
  "substring_from n s = drop n s"

text \<open>\<open>s.split(sep)\<close> for a separator of one code unit (\<open>acc\<close> is the piece being read).\<close>

fun splitAt :: "'a \<Rightarrow> 'a list \<Rightarrow> 'a list \<Rightarrow> 'a list list" where
  "splitAt sep acc [] = [rev acc]"
| "splitAt sep acc (x # xs) =
     (if x = sep then rev acc # splitAt sep [] xs else splitAt sep (x # acc) xs)"

text \<open>
  The code units that ECMAScript calls WhiteSpace or LineTerminator.  They are what
  \<open>trim\<close> strips and what \<open>\s\<close> matches.
\<close>

definition isWhiteSpace :: "jschar \<Rightarrow> bool" where
  "isWhiteSpace c =
     (c = 0x09 \<or> c = 0x0A \<or> c = 0x0B \<or> c = 0x0C \<or> c = 0x0D \<or> c = 0x20 \<or> c = 0xA0
      \<or> c = 0x1680 \<or> (0x2000 \<le> c \<and> c \<le> 0x200A) \<or> c = 0x2028 \<or> c = 0x2029
      \<or> c = 0x202F \<or> c = 0x205F \<or> c = 0x3000 \<or> c = 0xFEFF)"

definition trim :: "jsstring \<Rightarrow> jsstring" where
  "trim s = rev (dropWhile isWhiteSpace (rev (dropWhile isWhiteSpace s)))"

text \<open>Lower case for the ASCII letters; every other code unit stays as it is.\<close>

definition lowerUnit :: "jschar \<Rightarrow> jschar" where
  "lowerUnit c = (if 0x41 \<le> c \<and> c \<le> 0x5A then c + 0x20 else c)"

definition asciiLowerCase :: "jsstring \<Rightarrow> jsstring" where
  "asciiLowerCase s = map lowerUnit s"

section \<open>Regular expressions of the source\<close>

text \<open>
  The patterns of the source use literals, alternation, \<open>\w+\<close>, \<open>\s*\<close>, \<open>\b\<close>, \<open>?\<close> and
  \<open>^\<close>, always under the \<open>i\<close> flag and never under \<open>u\<close>.  \<open>rmatch r q s\<close> lists every way
  \<open>r\<close> can match a prefix of \<open>s\<close>, as the pair of the last code unit consumed (\<open>q\<close> is the
  code unit before \<open>s\<close>, \<open>None\<close> at the start of the input) and the rest of the input.
  \<open>RegExp.prototype.test\<close> only asks whether some match exists, so greediness does not
  matter.

  Without the \<open>u\<close> flag, case-insensitive comparison canonicalises one code unit at a
  time with the upper-case mapping and never maps a code unit of 128 or more to an ASCII
  one; every literal of the source is ASCII, so a literal letter matches exactly its two
  ASCII forms.
\<close>

datatype regex =
    Eps
  | Chr jschar
  | Seq regex regex
  | Alt regex regex
  | Many "jschar \<Rightarrow> bool"
  | Many1 "jschar \<Rightarrow> bool"
  | WordB
  | Bol

definition canonicalize :: "jschar \<Rightarrow> jschar" where
  "canonicalize c = (if 0x61 \<le> c \<and> c \<le> 0x7A then c - 0x20 else c)"

text \<open>\<open>\w\<close>: ASCII letters, digits and the underscore.\<close>

definition isWordChar :: "jschar \<Rightarrow> bool" where
  "isWordChar c =
     ((0x61 \<le> c \<and> c \<le> 0x7A) \<or> (0x41 \<le> c \<and> c \<le> 0x5A) \<or> (0x30 \<le> c \<and> c \<le> 0x39)
      \<or> c = 0x5F)"

fun isWordOpt :: "jschar option \<Rightarrow> bool" where
  "isWordOpt None = False"
| "isWordOpt (Some c) = isWordChar c"

fun first :: "jsstring \<Rightarrow> jschar option" where
  "first [] = None"
| "first (x # xs) = Some x"

fun many :: "(jschar \<Rightarrow> bool) \<Rightarrow> jschar option \<Rightarrow> jsstring \<Rightarrow> (jschar option \<times> jsstring) list" where
  "many p q [] = [(q, [])]"
| "many p q (x # xs) = (q, x # xs) # (if p x then many p (Some x) xs else [])"

fun rmatch :: "regex \<Rightarrow> jschar option \<Rightarrow> jsstring \<Rightarrow> (jschar option \<times> jsstring) list" where
  "rmatch Eps q s = [(q, s)]"
| "rmatch (Chr c) q s =
     (case s of [] \<Rightarrow> []
      | x # xs \<Rightarrow> if canonicalize x = canonicalize c then [(Some x, xs)] else [])"
| "rmatch (Seq a b) q s = concat (map (\<lambda>(q', s'). rmatch b q' s') (rmatch a q s))"
| "rmatch (Alt a b) q s = rmatch a q s @ rmatch b q s"
| "rmatch (Many p) q s = many p q s"
| "rmatch (Many1 p) q s =
     (case s of [] \<Rightarrow> [] | x # xs \<Rightarrow> if p x then many p (Some x) xs else [])"
| "rmatch WordB q s = (if isWordOpt q \<noteq> isWordOpt (first s) then [(q, s)] else [])"
| "rmatch Bol q s = (if q = None then [(q, s)] else [])"

text \<open>\<open>re.test(s)\<close>: try every start position from left to right.\<close>

fun search :: "regex \<Rightarrow> jschar option \<Rightarrow> jsstring \<Rightarrow> bool" where
  "search r q [] = (rmatch r q [] \<noteq> [])"
| "search r q (x # xs) = (rmatch r q (x # xs) \<noteq> [] \<or> search r (Some x) xs)"

definition test :: "regex \<Rightarrow> jsstring \<Rightarrow> bool" where
  "test r s = search r None s"

text \<open>A literal run of characters, and \<open>r?\<close>.\<close>

definition lit :: "string \<Rightarrow> regex" where
  "lit s = foldr (\<lambda>c r. Seq (Chr (of_char c)) r) s Eps"


section \<open>The platform\<close>

text \<open>
  The handler runs on a JavaScript runtime whose \<open>URL\<close> class, \<open>URLSearchParams\<close>,
  \<open>decodeURIComponent\<close> and Unicode case mapping (\<open>toLowerCase\<close>) are not part of the
  repository.  The functions of the source take them as a \<open>platform\<close>.  A thrown
  exception is a value of type \<open>exn\<close> (the class of the error and its message), and a
  call that can throw returns \<open>exn + 'a\<close>.

  Of a \<open>URL\<close> object the source reads \<open>toString()\<close>, \<open>protocol\<close>, \<open>host\<close>, \<open>hostname\<close>,
  \<open>pathname\<close> and \<open>searchParams\<close>, the decoded name-value pairs of the query.
\<close>

datatype exn = TypeError jsstring | URIError jsstring | Error jsstring


record url_object =
  toString :: jsstring
  protocol :: jsstring
  host :: jsstring
  hostname :: jsstring
  pathname :: jsstring
  searchParams :: "(jsstring \<times> jsstring) list"

record platform =
  newURL :: "jsstring \<Rightarrow> jsstring option \<Rightarrow> exn + url_object"
  decodeURIComponent :: "jsstring \<Rightarrow> exn + jsstring"
  urlSearchParamsToString :: "(jsstring \<times> jsstring) list \<Rightarrow> jsstring"
  toLowerCase :: "jsstring \<Rightarrow> jsstring"

text \<open>\<open>searchParams.get(name)\<close>: the value of the first pair with that name, or \<open>null\<close>.\<close>

fun searchParams_get :: "(jsstring \<times> jsstring) list \<Rightarrow> jsstring \<Rightarrow> jsstring option" where
  "searchParams_get [] name = None"
| "searchParams_get ((k, v) # ps) name = (if k = name then Some v else searchParams_get ps name)"

section \<open>The search query (\<open>GET\<close> handler in \<open>routes/api/ddg.ts\<close>)\<close>

text \<open>
  \<open>query\<close> is \<open>(url.searchParams.get("q") ?? "").trim()\<close>; the argument is what \<open>get\<close>
  returned.
\<close>

definition query_of :: "jsstring option \<Rightarrow> jsstring" where
  "query_of q = trim (case q of None \<Rightarrow> [] | Some v \<Rightarrow> v)"

text \<open>\<open>query.replace(/\+/g, " ")\<close>: every match of the one-character pattern is replaced.\<close>

definition normalizedQuery :: "jsstring \<Rightarrow> jsstring" where
  "normalizedQuery query = concat (map (\<lambda>c. if c = 0x2B then js '' '' else [c]) query)"

definition searchUrl :: "platform \<Rightarrow> jsstring \<Rightarrow> jsstring" where
  "searchUrl P query =
     js ''https://html.duckduckgo.com/html/?''
       @ urlSearchParamsToString P [(js ''q'', normalizedQuery query)]"

section \<open>Candidate links (\<open>normalizeDuckHref\<close>, \<open>preferredCandidates\<close>)\<close>


text \<open>
  \<open>normalizeDuckHref\<close>.  The two \<open>new URL\<close> calls are outside any \<open>try\<close> and can throw;
  a failing \<open>decodeURIComponent\<close> is caught and leaves the candidate as it is.  The test
  \<open>if (uddg)\<close> fails for \<open>null\<close> and for the empty string.
\<close>

definition normalizeDuckHref :: "platform \<Rightarrow> jsstring \<Rightarrow> exn + jsstring" where
  "normalizeDuckHref P inputHref =
     (case (if startsWith inputHref (js ''/'')
            then map_sum id toString (newURL P inputHref (Some (js ''https://html.duckduckgo.com'')))
            else Inr inputHref) of
        Inl e \<Rightarrow> Inl e
      | Inr candidate \<Rightarrow>
          if includes_js candidate (js ''duckduckgo.com/l/?'') \<or> startsWith candidate (js ''/l/?'')
          then (case newURL P candidate (Some (js ''https://duckduckgo.com'')) of
                  Inl e \<Rightarrow> Inl e
                | Inr urlObj \<Rightarrow>
                    (case searchParams_get (searchParams urlObj) (js ''uddg'') of
                       None \<Rightarrow> Inr candidate
                     | Some uddg \<Rightarrow>
                         if uddg \<noteq> []
                         then (case decodeURIComponent P uddg of
                                 Inl e \<Rightarrow> Inr candidate
                               | Inr decoded \<Rightarrow> Inr decoded)
                         else Inr candidate))
          else Inr candidate)"






section \<open>The candidate phase of the handler and its error response\<close>

text \<open>
  A \<open>Response\<close>: status, content type and body.  The \<open>catch\<close> of the handler turns every
  exception of the \<open>try\<close> block into a plain-text response with status 500.
\<close>

record http_response =
  status :: nat
  content_type :: jsstring
  body :: jsstring



section \<open>Candidate scoring and ranking (\<open>scoreDomain\<close>, \<open>rankedCandidates\<close>)\<close>

text \<open>
  \<open>/wikipedia|stackoverflow|github|medium|reddit|docs\./i\<close>,
  \<open>/facebook|twitter|instagram|tiktok|pinterest/i\<close> and
  \<open>/doubleclick|adservice|adsense|googleadservices/i\<close>.
\<close>

definition re_quality :: regex where
  "re_quality =
     Alt (lit ''wikipedia'') (Alt (lit ''stackoverflow'') (Alt (lit ''github'')
       (Alt (lit ''medium'') (Alt (lit ''reddit'') (lit ''docs.'')))))"

definition re_social :: regex where
  "re_social =
     Alt (lit ''facebook'') (Alt (lit ''twitter'') (Alt (lit ''instagram'')
       (Alt (lit ''tiktok'') (lit ''pinterest''))))"

definition re_adtrack :: regex where
  "re_adtrack =
     Alt (lit ''doubleclick'') (Alt (lit ''adservice'') (Alt (lit ''adsense'')
       (lit ''googleadservices'')))"

text \<open>
  \<open>scoreDomain\<close>.  Scores are small integers.  Only \<open>new URL(url)\<close> can throw inside the
  \<open>try\<close>, and then the function returns \<open>-1\<close>.
\<close>

definition scoreDomain :: "platform \<Rightarrow> jsstring \<Rightarrow> int" where
  "scoreDomain P u =
     (case newURL P u None of
        Inl e \<Rightarrow> - 1
      | Inr urlObj \<Rightarrow>
          (let hostname = toLowerCase P (hostname urlObj);
               score = 0;
               score = (if test re_quality hostname then score + 3 else score);
               score = (if test re_social hostname then score - 5 else score);
               score = (if test re_adtrack hostname then score - 10 else score);
               score = (if startsWith u (js ''https://'') then score + 1 else score);
               score = (if length u < 100 then score + 1 else score)
           in score))"

text \<open>
  \<open>Array.prototype.sort\<close> with a comparator.  The sort is stable (ECMAScript 2019), so
  for a comparator that orders by a key its result is the one insertion sort computes:
  \<open>x\<close> goes before the first \<open>y\<close> with \<open>cmp x y \<le> 0\<close>.
\<close>

fun insertBy :: "('a \<Rightarrow> 'a \<Rightarrow> int) \<Rightarrow> 'a \<Rightarrow> 'a list \<Rightarrow> 'a list" where
  "insertBy cmp x [] = [x]"
| "insertBy cmp x (y # ys) = (if cmp x y \<le> 0 then x # y # ys else y # insertBy cmp x ys)"

definition sortBy :: "('a \<Rightarrow> 'a \<Rightarrow> int) \<Rightarrow> 'a list \<Rightarrow> 'a list" where
  "sortBy cmp xs = foldr (insertBy cmp) xs []"

text \<open>
  \<open>rankedCandidates\<close>, from the preferred candidates: pair every URL with its score,
  sort by \<open>b.score - a.score\<close>, keep the first eight, drop the scores.
\<close>

definition rankedCandidates :: "platform \<Rightarrow> jsstring list \<Rightarrow> jsstring list" where
  "rankedCandidates P preferred =
     map fst (slice0 8 (sortBy (\<lambda>a b. snd b - snd a)
       (map (\<lambda>u. (u, scoreDomain P u)) preferred)))"

section \<open>The gather-mode runner (\<open>fetchAllWithConcurrency\<close>)\<close>










section \<open>Content admission (in \<open>worker\<close>, \<open>routes/api/ddg.ts\<close>)\<close>

text \<open>The nine signals of \<open>isCloudflareChallenge\<close>, in the order of the source.\<close>

definition signals :: "regex list" where
  "signals =
     [ lit ''cdn-cgi/challenge-platform/'',
       Seq WordB (Seq (lit ''cf-chl-'') (Many1 isWordChar)),
       Seq WordB (Seq (lit ''cRay'') WordB),
       lit ''Just a moment...'',
       Seq (lit ''Attention Required!'')
         (Seq (Many isWhiteSpace) (Seq (Chr 0x7C) (Seq (Many isWhiteSpace) (lit ''Cloudflare'')))),
       lit ''DDoS protection by Cloudflare'',
       Seq (lit ''enable '')
         (Seq (Alt (lit ''JavaScript'') (lit ''cookies'')) (lit '' and try again'')),
       lit ''Rocket Loader is loading your page'',
       lit ''/cdn-cgi/l/chk_jschl'' ]"

definition isCloudflareChallenge :: "jsstring \<Rightarrow> bool" where
  "isCloudflareChallenge html =
     (let text = slice0 200000 html in list_ex (\<lambda>re. test re text) signals)"

text \<open>\<open>/adsense\/domains\/caf\.js/i\<close>\<close>

definition re_caf :: regex where
  "re_caf = lit ''adsense/domains/caf.js''"

definition looksLikeParkedOrAd :: "jsstring \<Rightarrow> bool" where
  "looksLikeParkedOrAd candidateHtml =
     (length candidateHtml < 400 \<or> test re_caf candidateHtml)"

text \<open>
  The admission branch of the worker: a page is skipped, with the reason that the worker
  logs, or it goes on to extraction (\<open>None\<close>).
\<close>

datatype skip_reason = parked_or_ad | cloudflare_challenge

definition admission :: "jsstring \<Rightarrow> skip_reason option" where
  "admission candidateHtml =
     (if looksLikeParkedOrAd candidateHtml \<or> isCloudflareChallenge candidateHtml
      then Some (if looksLikeParkedOrAd candidateHtml then parked_or_ad else cloudflare_challenge)
      else None)"

section \<open>Extraction and the per-candidate worker\<close>

text \<open>\<open>s.replaceAll(c, r)\<close> for a pattern of one code unit.\<close>

definition replaceAll :: "jschar \<Rightarrow> jsstring \<Rightarrow> jsstring \<Rightarrow> jsstring" where
  "replaceAll c r s = concat (map (\<lambda>x. if x = c then r else [x]) s)"

definition escapeHtmlAttribute :: "jsstring \<Rightarrow> jsstring" where
  "escapeHtmlAttribute input =
     replaceAll 0x27 (js ''&#039;'')
       (replaceAll 0x22 (js ''&quot;'')
          (replaceAll 0x3E (js ''&gt;'')
             (replaceAll 0x3C (js ''&lt;'')
                (replaceAll 0x26 (js ''&amp;'') input))))"

text \<open>\<open>FetchResult\<close>, which is also the type of the entries of \<open>successes\<close>.\<close>

record fetch_result =
  url :: jsstring
  html :: jsstring

text \<open>\<open>ReadabilityArticle\<close>; only the title and the content are used.\<close>

record article =
  article_title :: jsstring
  article_content :: jsstring

definition wrapAsHtmlDocument :: "article \<Rightarrow> jsstring" where
  \<open>wrapAsHtmlDocument a =
     (let safeTitle = escapeHtmlAttribute (article_title a)
      in js ''<!doctype html><html lang="en"><head><meta charset="utf-8"/><meta name''
         @ js ''="viewport" content="width=device-width, initial-scale=1"/><title>''
         @ safeTitle
         @ js ''</title><style>body{margin:2rem auto;max-width:800px;line-height:1.6;f''
         @ js ''ont-family:system-ui,-apple-system,Segoe UI,Roboto,Ubuntu,Cantarell,No''
         @ js ''to Sans,sans-serif;padding:0 1rem} img,video,iframe{max-width:100%;hei''
         @ js ''ght:auto} pre,code{white-space:pre-wrap;word-wrap:break-word}</style><''
         @ js ''/head><body><article>''
         @ article_content a
         @ js ''</article></body></html>'')\<close>

text \<open>
  The browser and the article extractor are outside the repository.  \<open>visit\<close> is what the
  worker does with the page before it looks at the HTML (open a page, configure it,
  navigate, wait, read the content with its retries): it yields the rendered HTML, or the
  exception that ends the attempt.  \<open>readability\<close> is \<open>new Readability(document).parse()\<close>
  on the HTML with the candidate URL as base: an article, \<open>null\<close>, or an exception.
\<close>

record browser =
  visit :: "jsstring \<Rightarrow> exn + jsstring"
  readability :: "jsstring \<Rightarrow> jsstring \<Rightarrow> exn + article option"

text \<open>
  Extraction: the wrapped article when there is one with a title and content, else the
  raw HTML, also when the extractor throws.
\<close>

definition extracted :: "browser \<Rightarrow> jsstring \<Rightarrow> jsstring \<Rightarrow> jsstring" where
  "extracted B candidateUrl candidateHtml =
     (case readability B candidateHtml candidateUrl of
        Inl e \<Rightarrow> candidateHtml
      | Inr None \<Rightarrow> candidateHtml
      | Inr (Some a) \<Rightarrow>
          if article_content a \<noteq> [] \<and> article_title a \<noteq> [] then wrapAsHtmlDocument a else candidateHtml)"

text \<open>
  The worker never rejects: a failed visit and a skipped page both give \<open>null\<close>.
\<close>

definition worker :: "browser \<Rightarrow> jsstring \<Rightarrow> fetch_result option" where
  "worker B candidateUrl =
     (case visit B candidateUrl of
        Inl e \<Rightarrow> None
      | Inr candidateHtml \<Rightarrow>
          if looksLikeParkedOrAd candidateHtml \<or> isCloudflareChallenge candidateHtml then None
          else Some \<lparr>url = candidateUrl, html = extracted B candidateUrl candidateHtml\<rparr>)"

section \<open>Aggregation under a character budget (summarisation input in \<open>routes/api/ddg.ts\<close>)\<close>

text \<open>The entries of \<open>sourceTexts\<close>.\<close>

record source_text =
  src_url :: jsstring
  text_s :: jsstring

text \<open>
  The DOM library (\<open>parseHTML\<close>, \<open>querySelector\<close>, \<open>textContent\<close>) is not part of the
  repository.  Of a parsed document the handler only reads two strings:
  \<open>titleOf\<close> is \<open>document.querySelector("title")?.textContent ?? ""\<close> and \<open>textOf\<close> is
  \<open>articleEl?.textContent ?? document.textContent ?? ""\<close>, where \<open>articleEl\<close> is the
  first \<open>article\<close> element or else the body.
\<close>

record dom =
  titleOf :: "jsstring \<Rightarrow> jsstring"
  textOf :: "jsstring \<Rightarrow> jsstring"

definition perSourceLimit :: nat where
  "perSourceLimit = 20000"

definition maxTotal :: nat where
  "maxTotal = 120000"

definition snippet :: "jsstring \<Rightarrow> jsstring \<Rightarrow> jsstring" where
  "snippet title rawText =
     slice0 perSourceLimit
       ((if title \<noteq> [] then js ''Title: '' @ title @ js ''\<newline>\<newline>'' else []) @ rawText)"

text \<open>The loop over \<open>successes\<close>; a source without text is skipped by \<open>continue\<close>.\<close>

fun sourcesOfSuccesses :: "dom \<Rightarrow> fetch_result list \<Rightarrow> source_text list" where
  "sourcesOfSuccesses d [] = []"
| "sourcesOfSuccesses d (s # ss) =
     (let title = titleOf d (html s);
          rawText = trim (textOf d (html s))
      in if rawText = [] then sourcesOfSuccesses d ss
         else \<lparr>src_url = url s, text_s = snippet title rawText\<rparr> # sourcesOfSuccesses d ss)"

text \<open>
  \<open>sourceTexts\<close> as the handler builds it: from \<open>successes\<close> when there are any, else from
  the single page \<open>html\<close>, under \<open>successUrl ?? "unknown"\<close>.
\<close>

definition sourceTexts ::
  "dom \<Rightarrow> fetch_result list \<Rightarrow> jsstring \<Rightarrow> jsstring option \<Rightarrow> source_text list" where
  "sourceTexts d successes html0 successUrl =
     (if length successes > 0 then sourcesOfSuccesses d successes
      else (let title = titleOf d html0;
                rawText = trim (textOf d html0)
            in [\<lparr>src_url = (case successUrl of None \<Rightarrow> js ''unknown'' | Some u \<Rightarrow> u),
                 text_s = snippet title rawText\<rparr>]))"

text \<open>\<open>nextChunk\<close>, and the loop that combines the chunks under the overall cap.\<close>

definition nextChunk :: "source_text \<Rightarrow> jsstring" where
  "nextChunk s = js ''\<newline>\<newline>[Source: '' @ src_url s @ js '']\<newline>'' @ text_s s"

fun combineLoop :: "source_text list \<Rightarrow> jsstring \<Rightarrow> jsstring list \<Rightarrow> jsstring \<times> jsstring list" where
  "combineLoop [] combined usedUrls = (combined, usedUrls)"
| "combineLoop (s # ss) combined usedUrls =
     (if length combined + length (nextChunk s) > maxTotal then (combined, usedUrls)
      else combineLoop ss (combined @ nextChunk s) (usedUrls @ [src_url s]))"

definition combine :: "source_text list \<Rightarrow> jsstring \<times> jsstring list" where
  "combine srcs = combineLoop srcs [] []"

section \<open>The robots.txt check (\<open>checkRobotsTxt\<close>)\<close>

text \<open>
  \<open>fetch\<close> is given the robots URL and the user agent.  It throws on a network error,
  else it yields the status of the response and its text (reading the text can throw as
  well).  \<open>response.ok\<close> holds for the statuses 200 to 299.
\<close>

record fetch_response =
  http_status :: nat
  response_text :: "exn + jsstring"

definition ok :: "fetch_response \<Rightarrow> bool" where
  "ok response = (200 \<le> http_status response \<and> http_status response \<le> 299)"

record robots =
  currentUserAgent :: jsstring
  disallowedPaths :: "jsstring list"
  allowedPaths :: "jsstring list"

text \<open>The body of the loop over the lines.\<close>

definition robotsLine :: "platform \<Rightarrow> jsstring \<Rightarrow> robots \<Rightarrow> jsstring \<Rightarrow> robots" where
  "robotsLine P userAgent st line =
     (let trimmed = toLowerCase P (trim line)
      in if startsWith trimmed (js ''user-agent:'')
         then st\<lparr>currentUserAgent := trim (substring_from 11 trimmed)\<rparr>
         else if startsWith trimmed (js ''disallow:'')
         then (if currentUserAgent st = js ''*'' \<or> currentUserAgent st = toLowerCase P userAgent
               then (let path = trim (substring_from 9 trimmed)
                     in if path \<noteq> [] then st\<lparr>disallowedPaths := disallowedPaths st @ [path]\<rparr>
                        else st)
               else st)
         else if startsWith trimmed (js ''allow:'')
         then (if currentUserAgent st = js ''*'' \<or> currentUserAgent st = toLowerCase P userAgent
               then (let path = trim (substring_from 6 trimmed)
                     in if path \<noteq> [] then st\<lparr>allowedPaths := allowedPaths st @ [path]\<rparr>
                        else st)
               else st)
         else st)"

definition parseRobots :: "platform \<Rightarrow> jsstring \<Rightarrow> jsstring \<Rightarrow> robots" where
  "parseRobots P userAgent robotsText =
     foldl (robotsLine P userAgent)
       \<lparr>currentUserAgent = [], disallowedPaths = [], allowedPaths = []\<rparr>
       (splitAt 0x0A [] robotsText)"

text \<open>The loop over \<open>disallowedPaths\<close>: \<open>return false\<close> at the first path that matches.\<close>

fun pathAllowed :: "jsstring \<Rightarrow> jsstring list \<Rightarrow> bool" where
  "pathAllowed urlPath [] = True"
| "pathAllowed urlPath (disallowedPath # rest) =
     (if disallowedPath = js ''/'' \<or> startsWith urlPath disallowedPath then False
      else pathAllowed urlPath rest)"

text \<open>
  The \<open>try\<close> block of \<open>checkRobotsTxt\<close>, with the exceptions that can leave it, and the
  function itself, whose \<open>catch\<close> returns \<open>true\<close>.
\<close>

definition checkRobotsTxt_try ::
  "platform \<Rightarrow> (jsstring \<Rightarrow> jsstring \<Rightarrow> exn + fetch_response) \<Rightarrow> jsstring \<Rightarrow> jsstring \<Rightarrow> exn + bool"
  where
  "checkRobotsTxt_try P fetch u userAgent =
     (case newURL P u None of
        Inl e \<Rightarrow> Inl e
      | Inr urlObj \<Rightarrow>
          (case fetch (protocol urlObj @ js ''//'' @ host urlObj @ js ''/robots.txt'') userAgent of
             Inl e \<Rightarrow> Inl e
           | Inr response \<Rightarrow>
               if \<not> ok response then Inr True
               else (case response_text response of
                       Inl e \<Rightarrow> Inl e
                     | Inr robotsText \<Rightarrow>
                         Inr (pathAllowed (pathname urlObj)
                                (disallowedPaths (parseRobots P userAgent robotsText))))))"

definition checkRobotsTxt ::
  "platform \<Rightarrow> (jsstring \<Rightarrow> jsstring \<Rightarrow> exn + fetch_response) \<Rightarrow> jsstring \<Rightarrow> jsstring \<Rightarrow> bool"
  where
  "checkRobotsTxt P fetch u userAgent =
     (case checkRobotsTxt_try P fetch u userAgent of Inl error \<Rightarrow> True | Inr allowed \<Rightarrow> allowed)"

text \<open>
  The rule as the specification words it, for comparison: a URL is disallowed exactly
  when some \<open>Disallow\<close> path, recorded under a group whose \<open>User-agent\<close> line is \<open>*\<close> or
  equals the requesting user agent case-insensitively, is \<open>/\<close> or a prefix of the path of
  the URL.  The path of a \<open>Disallow\<close> line is the text after the colon, trimmed.
\<close>

definition spec_robotsLine :: "platform \<Rightarrow> jsstring \<Rightarrow> robots \<Rightarrow> jsstring \<Rightarrow> robots" where
  "spec_robotsLine P userAgent st line =
     (if startsWith (toLowerCase P (trim line)) (js ''user-agent:'')
      then st\<lparr>currentUserAgent := trim (substring_from 11 (trim line))\<rparr>
      else if startsWith (toLowerCase P (trim line)) (js ''disallow:'')
        \<and> (currentUserAgent st = js ''*''
             \<or> toLowerCase P (currentUserAgent st) = toLowerCase P userAgent)
        \<and> trim (substring_from 9 (trim line)) \<noteq> []
      then st\<lparr>disallowedPaths := disallowedPaths st @ [trim (substring_from 9 (trim line))]\<rparr>
      else st)"

definition spec_disallowed :: "platform \<Rightarrow> jsstring \<Rightarrow> jsstring \<Rightarrow> jsstring \<Rightarrow> bool" where
  "spec_disallowed P robotsText userAgent urlPath =
     list_ex (\<lambda>p. p = js ''/'' \<or> startsWith urlPath p)
       (disallowedPaths
          (foldl (spec_robotsLine P userAgent)
             \<lparr>currentUserAgent = [], disallowedPaths = [], allowedPaths = []\<rparr>
             (splitAt 0x0A [] robotsText)))"

section \<open>The handler after the search page (\<open>GET\<close> in \<open>routes/api/ddg.ts\<close>)\<close>



section \<open>A reference platform for the examples\<close>

text \<open>
  The examples below need a concrete platform.  Its functions are written after
  ECMA-262 (\<open>encodeURIComponent\<close>, \<open>decodeURIComponent\<close>) and the URL Standard
  (percent-decoding, the \<open>application/x-www-form-urlencoded\<close> parser and serialiser, UTF-8
  decoding with replacement).  Its \<open>toLowerCase\<close> maps the ASCII letters only, which is
  what the runtime does on an ASCII string.  Octets and code points are natural numbers.
\<close>

definition hexValue :: "jschar \<Rightarrow> nat option" where
  "hexValue c =
     (if 0x30 \<le> c \<and> c \<le> 0x39 then Some (unat c - 0x30)
      else if 0x41 \<le> c \<and> c \<le> 0x46 then Some (unat c - 0x37)
      else if 0x61 \<le> c \<and> c \<le> 0x66 then Some (unat c - 0x57)
      else None)"

definition hexDigit :: "nat \<Rightarrow> jschar" where
  "hexDigit n = (if n < 10 then of_nat (0x30 + n) else of_nat (0x37 + n))"

definition percentEncoded :: "nat \<Rightarrow> jsstring" where
  "percentEncoded b = [0x25, hexDigit (b div 16), hexDigit (b mod 16)]"

definition isAlnum :: "jschar \<Rightarrow> bool" where
  "isAlnum c =
     ((0x30 \<le> c \<and> c \<le> 0x39) \<or> (0x41 \<le> c \<and> c \<le> 0x5A) \<or> (0x61 \<le> c \<and> c \<le> 0x7A))"

text \<open>UTF-8 of a code point, and UTF-16 of a code point.\<close>

definition utf8 :: "nat \<Rightarrow> nat list" where
  "utf8 cp =
     (if cp < 0x80 then [cp]
      else if cp < 0x800 then [0xC0 + cp div 0x40, 0x80 + cp mod 0x40]
      else if cp < 0x10000
        then [0xE0 + cp div 0x1000, 0x80 + (cp div 0x40) mod 0x40, 0x80 + cp mod 0x40]
      else [0xF0 + cp div 0x40000, 0x80 + (cp div 0x1000) mod 0x40,
            0x80 + (cp div 0x40) mod 0x40, 0x80 + cp mod 0x40])"

definition utf16 :: "nat \<Rightarrow> jsstring" where
  "utf16 cp =
     (if cp < 0x10000 then [of_nat cp]
      else [of_nat (0xD800 + (cp - 0x10000) div 0x400),
            of_nat (0xDC00 + (cp - 0x10000) mod 0x400)])"

text \<open>
  The code points of a string; a surrogate that is not part of a pair yields \<open>None\<close>.
\<close>

definition isHighSurrogate :: "jschar \<Rightarrow> bool" where
  "isHighSurrogate c = (0xD800 \<le> c \<and> c \<le> 0xDBFF)"

definition isLowSurrogate :: "jschar \<Rightarrow> bool" where
  "isLowSurrogate c = (0xDC00 \<le> c \<and> c \<le> 0xDFFF)"

definition loneUnit :: "jschar \<Rightarrow> nat option" where
  "loneUnit c = (if isHighSurrogate c \<or> isLowSurrogate c then None else Some (unat c))"

fun codePoints :: "jsstring \<Rightarrow> nat option list" where
  "codePoints [] = []"
| "codePoints [c] = [loneUnit c]"
| "codePoints (c # d # cs) =
     (if isHighSurrogate c \<and> isLowSurrogate d
      then Some (0x10000 + (unat c - 0xD800) * 0x400 + (unat d - 0xDC00)) # codePoints cs
      else loneUnit c # codePoints (d # cs))"

text \<open>
  \<open>encodeURIComponent\<close>: letters, digits and \<open>- _ . ! ~ * ' ( )\<close> stay, everything else
  becomes the escapes of its UTF-8 octets; a lone surrogate throws \<open>URIError\<close>.
\<close>

definition uriUnescaped :: "jschar \<Rightarrow> bool" where
  "uriUnescaped c =
     (isAlnum c \<or> c = 0x2D \<or> c = 0x5F \<or> c = 0x2E \<or> c = 0x21 \<or> c = 0x7E \<or> c = 0x2A
      \<or> c = 0x27 \<or> c = 0x28 \<or> c = 0x29)"

definition encodeCodePoint :: "nat \<Rightarrow> jsstring" where
  "encodeCodePoint cp =
     (if cp < 0x80 \<and> uriUnescaped (of_nat cp) then [of_nat cp]
      else concat (map percentEncoded (utf8 cp)))"

definition encodeURIComponent :: "jsstring \<Rightarrow> exn + jsstring" where
  "encodeURIComponent s =
     (if None \<in> set (codePoints s) then Inl (URIError (js ''URI malformed''))
      else Inr (concat (map (\<lambda>cp. encodeCodePoint (the cp)) (codePoints s))))"

text \<open>
  \<open>decodeURIComponent\<close>.  First the escapes are read: a \<open>%\<close> must be followed by two
  hexadecimal digits.  Then every escape below \<open>0x80\<close> is that character, and an escape
  from \<open>0x80\<close> on must begin a well-formed UTF-8 sequence of escapes.  Anything else
  throws \<open>URIError\<close>.
\<close>

datatype token = Unit jschar | Escape nat

fun tokens :: "jsstring \<Rightarrow> token list option" where
  "tokens [] = Some []"
| "tokens (c # cs) =
     (if c = 0x25 then
        (case cs of
           h1 # h2 # rest \<Rightarrow>
             (case (hexValue h1, hexValue h2, tokens rest) of
                (Some a, Some b, Some ts) \<Rightarrow> Some (Escape (16 * a + b) # ts)
              | _ \<Rightarrow> None)
         | _ \<Rightarrow> None)
      else (case tokens cs of Some ts \<Rightarrow> Some (Unit c # ts) | None \<Rightarrow> None))"

definition continuation :: "nat \<Rightarrow> nat \<Rightarrow> nat \<Rightarrow> bool" where
  "continuation lo hi b = (lo \<le> b \<and> b \<le> hi)"

fun decodeTokens :: "token list \<Rightarrow> jsstring option" where
  "decodeTokens [] = Some []"
| "decodeTokens (Unit c # ts) = map_option ((#) c) (decodeTokens ts)"
| "decodeTokens (Escape b # ts) =
     (if b < 0x80 then map_option ((#) (of_nat b)) (decodeTokens ts)
      else if 0xC2 \<le> b \<and> b \<le> 0xDF then
        (case ts of
           Escape b1 # ts1 \<Rightarrow>
             if continuation 0x80 0xBF b1
             then map_option ((@) (utf16 ((b mod 0x20) * 0x40 + b1 mod 0x40))) (decodeTokens ts1)
             else None
         | _ \<Rightarrow> None)
      else if 0xE0 \<le> b \<and> b \<le> 0xEF then
        (case ts of
           Escape b1 # Escape b2 # ts2 \<Rightarrow>
             if continuation (if b = 0xE0 then 0xA0 else 0x80) (if b = 0xED then 0x9F else 0xBF) b1
                \<and> continuation 0x80 0xBF b2
             then map_option
                    ((@) (utf16 ((b mod 0x10) * 0x1000 + (b1 mod 0x40) * 0x40 + b2 mod 0x40)))
                    (decodeTokens ts2)
             else None
         | _ \<Rightarrow> None)
      else if 0xF0 \<le> b \<and> b \<le> 0xF4 then
        (case ts of
           Escape b1 # Escape b2 # Escape b3 # ts3 \<Rightarrow>
             if continuation (if b = 0xF0 then 0x90 else 0x80) (if b = 0xF4 then 0x8F else 0xBF) b1
                \<and> continuation 0x80 0xBF b2 \<and> continuation 0x80 0xBF b3
             then map_option
                    ((@) (utf16 ((b mod 0x08) * 0x40000 + (b1 mod 0x40) * 0x1000
                                 + (b2 mod 0x40) * 0x40 + b3 mod 0x40)))
                    (decodeTokens ts3)
             else None
         | _ \<Rightarrow> None)
      else None)"

definition std_decodeURIComponent :: "jsstring \<Rightarrow> exn + jsstring" where
  "std_decodeURIComponent s =
     (case tokens s of
        None \<Rightarrow> Inl (URIError (js ''URI malformed''))
      | Some ts \<Rightarrow>
          (case decodeTokens ts of
             None \<Rightarrow> Inl (URIError (js ''URI malformed''))
           | Some r \<Rightarrow> Inr r))"

text \<open>
  UTF-8 decoding with replacement (the decoder of the Encoding Standard): \<open>cp\<close> is the
  code point under construction, \<open>needed\<close> the number of continuation octets still
  expected, \<open>lo\<close> and \<open>hi\<close> the bounds for the next one.  A malformed sequence yields
  \<open>U+FFFD\<close> and the offending octet is read again as the start of a sequence.
\<close>

definition utf8_lead :: "nat \<Rightarrow> nat list \<times> nat \<times> nat \<times> nat \<times> nat" where
  "utf8_lead b =
     (if b \<le> 0x7F then ([b], 0, 0, 0x80, 0xBF)
      else if 0xC2 \<le> b \<and> b \<le> 0xDF then ([], b mod 0x20, 1, 0x80, 0xBF)
      else if 0xE0 \<le> b \<and> b \<le> 0xEF
        then ([], b mod 0x10, 2, if b = 0xE0 then 0xA0 else 0x80, if b = 0xED then 0x9F else 0xBF)
      else if 0xF0 \<le> b \<and> b \<le> 0xF4
        then ([], b mod 0x08, 3, if b = 0xF0 then 0x90 else 0x80, if b = 0xF4 then 0x8F else 0xBF)
      else ([0xFFFD], 0, 0, 0x80, 0xBF))"

fun utf8_decode :: "nat \<Rightarrow> nat \<Rightarrow> nat \<Rightarrow> nat \<Rightarrow> nat list \<Rightarrow> nat list" where
  "utf8_decode cp needed lo hi [] = (if needed \<noteq> 0 then [0xFFFD] else [])"
| "utf8_decode cp needed lo hi (b # bs) =
     (if needed = 0 then
        (case utf8_lead b of (out, cp', needed', lo', hi') \<Rightarrow>
           out @ utf8_decode cp' needed' lo' hi' bs)
      else if b < lo \<or> hi < b then
        (case utf8_lead b of (out, cp', needed', lo', hi') \<Rightarrow>
           0xFFFD # out @ utf8_decode cp' needed' lo' hi' bs)
      else if needed = 1 then (cp * 0x40 + b mod 0x40) # utf8_decode 0 0 0x80 0xBF bs
      else utf8_decode (cp * 0x40 + b mod 0x40) (needed - 1) 0x80 0xBF bs)"

definition utf8_decode_lossy :: "nat list \<Rightarrow> jsstring" where
  "utf8_decode_lossy bs = concat (map utf16 (utf8_decode 0 0 0x80 0xBF bs))"

text \<open>
  The octets of a string as a scalar-value string: a lone surrogate becomes \<open>U+FFFD\<close>.
\<close>

definition utf8_encode :: "jsstring \<Rightarrow> nat list" where
  "utf8_encode s =
     concat (map (\<lambda>cp. utf8 (case cp of None \<Rightarrow> 0xFFFD | Some v \<Rightarrow> v)) (codePoints s))"

text \<open>
  Percent-decoding of the URL Standard: a \<open>%\<close> that is not followed by two hexadecimal
  digits stays as it is.
\<close>

fun percentDecode :: "nat list \<Rightarrow> nat list" where
  "percentDecode (c # h1 # h2 # rest) =
     (if c = 0x25 then
        (case (hexValue (of_nat h1), hexValue (of_nat h2)) of
           (Some a, Some b) \<Rightarrow> (16 * a + b) # percentDecode rest
         | _ \<Rightarrow> c # percentDecode (h1 # h2 # rest))
      else c # percentDecode (h1 # h2 # rest))"
| "percentDecode cs = cs"

text \<open>
  The \<open>application/x-www-form-urlencoded\<close> parser: the octets are split at \<open>&\<close>, empty
  pieces are dropped, every piece is split at its first \<open>=\<close>, \<open>+\<close> becomes a space, and
  name and value are percent-decoded and then decoded as UTF-8.
\<close>

definition formDecode :: "nat list \<Rightarrow> jsstring" where
  "formDecode bs =
     utf8_decode_lossy (percentDecode (map (\<lambda>b. if b = 0x2B then 0x20 else b) bs))"

definition formParse :: "jsstring \<Rightarrow> (jsstring \<times> jsstring) list" where
  "formParse query =
     map (\<lambda>piece. (formDecode (takeWhile (\<lambda>b. b \<noteq> 0x3D) piece),
                    formDecode (drop 1 (dropWhile (\<lambda>b. b \<noteq> 0x3D) piece))))
       (filter (\<lambda>piece. piece \<noteq> []) (splitAt 0x26 [] (utf8_encode query)))"

text \<open>
  The serialiser: letters, digits and \<open>* - . _\<close> stay, a space becomes \<open>+\<close>, every other
  octet is escaped; the pairs are joined by \<open>&\<close>.
\<close>

definition formEncodeOctet :: "nat \<Rightarrow> jsstring" where
  "formEncodeOctet b =
     (if b = 0x20 then [0x2B]
      else if b < 0x80 \<and> (isAlnum (of_nat b) \<or> b = 0x2A \<or> b = 0x2D \<or> b = 0x2E \<or> b = 0x5F)
        then [of_nat b]
      else percentEncoded b)"

definition formEncode :: "jsstring \<Rightarrow> jsstring" where
  "formEncode s = concat (map formEncodeOctet (utf8_encode s))"

fun std_urlSearchParamsToString :: "(jsstring \<times> jsstring) list \<Rightarrow> jsstring" where
  "std_urlSearchParamsToString [] = []"
| "std_urlSearchParamsToString [(k, v)] = formEncode k @ [0x3D] @ formEncode v"
| "std_urlSearchParamsToString ((k, v) # p # ps) =
     formEncode k @ [0x3D] @ formEncode v @ [0x26] @ std_urlSearchParamsToString (p # ps)"

text \<open>
  The URL parser of the reference platform accepts only plain URLs: an absolute
  \<open>http\<close> or \<open>https\<close> URL whose host is made of letters, digits, dots and hyphens
  (no credentials, no port, no Punycode label, the last label beginning with a letter),
  followed by an optional path, query and fragment made of characters that the URL
  Standard keeps as they are, with no path segment that begins with a dot or an escaped
  dot; and, against such a base, a reference that begins with a slash.  On these it
  returns what the URL Standard prescribes.  It throws on everything else, where the
  parser of a real runtime does more.
\<close>

definition plainChar :: "jschar \<Rightarrow> bool" where
  "plainChar c =
     (isAlnum c \<or> c = 0x21 \<or> c = 0x24 \<or> c = 0x25 \<or> c = 0x26 \<or> (0x28 \<le> c \<and> c \<le> 0x2F)
      \<or> c = 0x3A \<or> c = 0x3B \<or> c = 0x3D \<or> c = 0x40 \<or> c = 0x5F \<or> c = 0x7E)"

definition isAlpha :: "jschar \<Rightarrow> bool" where
  "isAlpha c = ((0x41 \<le> c \<and> c \<le> 0x5A) \<or> (0x61 \<le> c \<and> c \<le> 0x7A))"

definition plainHost :: "jsstring \<Rightarrow> bool" where
  "plainHost authority =
     (list_all (\<lambda>c. isAlnum c \<or> c = 0x2D \<or> c = 0x2E) authority
      \<and> (case rev (takeWhile (\<lambda>c. c \<noteq> 0x2E) (rev authority)) of
            [] \<Rightarrow> False
          | c # cs \<Rightarrow> isAlpha c)
      \<and> \<not> includes_js (asciiLowerCase authority) (js ''xn--''))"

definition plainPath :: "jsstring \<Rightarrow> bool" where
  "plainPath path =
     (list_all plainChar path \<and> \<not> includes_js path (js ''/.'')
      \<and> \<not> includes_js (asciiLowerCase path) (js ''/%2e''))"

definition invalidURL :: exn where
  "invalidURL = TypeError (js ''Invalid URL'')"

text \<open>\<open>span p xs\<close> cuts \<open>xs\<close> before its first element that does not satisfy \<open>p\<close>.\<close>

fun span :: "('a \<Rightarrow> bool) \<Rightarrow> 'a list \<Rightarrow> 'a list \<times> 'a list" where
  "span p [] = ([], [])"
| "span p (x # xs) = (if p x then (case span p xs of (ys, zs) \<Rightarrow> (x # ys, zs)) else ([], x # xs))"

definition parseAbsolute :: "jsstring \<Rightarrow> exn + url_object" where
  "parseAbsolute input =
     (case span (\<lambda>c. c \<noteq> 0x3A) input of (scheme0, afterScheme) \<Rightarrow>
      case span (\<lambda>c. c \<noteq> 0x2F \<and> c \<noteq> 0x3F \<and> c \<noteq> 0x23) (drop 3 afterScheme) of
        (authority, afterAuthority) \<Rightarrow>
      case span (\<lambda>c. c \<noteq> 0x3F \<and> c \<noteq> 0x23) afterAuthority of (path, afterPath) \<Rightarrow>
      case span (\<lambda>c. c \<noteq> 0x23) (drop 1 afterPath) of (query0, afterQuery) \<Rightarrow>
      case (asciiLowerCase scheme0, asciiLowerCase authority, startsWith afterPath [0x3F]) of
        (scheme, h, hasQuery) \<Rightarrow>
      case (if path = [] then [0x2F] else path,
            if hasQuery then query0 else [],
            if hasQuery then afterQuery else afterPath) of
        (p, query, fragment) \<Rightarrow>
          if (scheme = js ''http'' \<or> scheme = js ''https'')
             \<and> startsWith afterScheme (js ''://'')
             \<and> plainHost authority
             \<and> plainPath path
             \<and> list_all plainChar query
             \<and> list_all plainChar (drop 1 fragment)
          then Inr \<lparr>toString = scheme @ js ''://'' @ h @ p
                                  @ (if hasQuery then [0x3F] @ query else []) @ fragment,
                     protocol = scheme @ js '':'',
                     host = h,
                     hostname = h,
                     pathname = p,
                     searchParams = formParse query\<rparr>
          else Inl invalidURL)"

definition std_newURL :: "jsstring \<Rightarrow> jsstring option \<Rightarrow> exn + url_object" where
  "std_newURL input base =
     (case base of
        None \<Rightarrow> parseAbsolute input
      | Some b \<Rightarrow>
          (case parseAbsolute b of
             Inl e \<Rightarrow> Inl e
           | Inr baseUrl \<Rightarrow>
               if startsWith input (js ''//'') then parseAbsolute (protocol baseUrl @ input)
               else if startsWith input (js ''/'')
                 then parseAbsolute (protocol baseUrl @ js ''//'' @ host baseUrl @ input)
               else parseAbsolute input))"

definition std :: platform where
  "std = \<lparr>newURL = std_newURL,
          decodeURIComponent = std_decodeURIComponent,
          urlSearchParamsToString = std_urlSearchParamsToString,
          toLowerCase = asciiLowerCase\<rparr>"

section \<open>Example inputs\<close>

text \<open>
  Example pages: a short challenge page, a long one, one whose only challenge signature
  lies after the first 200000 code units, and a tiny ordinary page.
\<close>

definition short_challenge_page :: jsstring where
  "short_challenge_page = js ''Just a moment...''"

definition long_challenge_page :: jsstring where
  "long_challenge_page = replicate 400 0x20 @ js ''Just a moment...''"

definition late_challenge_page :: jsstring where
  "late_challenge_page = replicate 200000 0x20 @ js ''Just a moment...''"

definition tiny_page :: jsstring where
  "tiny_page = js ''<html><body>Hello</body></html>''"

text \<open>
  A browser that renders a given page at every URL, with an extractor that finds no
  article.
\<close>

definition browser_showing :: "jsstring \<Rightarrow> browser" where
  "browser_showing page =
     \<lparr>visit = (\<lambda>candidateUrl. Inr page),
      readability = (\<lambda>candidateHtml candidateUrl. Inr None)\<rparr>"

text \<open>
  Example sources for the aggregation: a document whose text is its own HTML and that
  has no title; six pages of 30000 code units and a seventh of a single one.
\<close>

definition demo_dom :: dom where
  "demo_dom = \<lparr>titleOf = (\<lambda>h. []), textOf = (\<lambda>h. h)\<rparr>"

definition demo_page :: "nat \<Rightarrow> fetch_result" where
  "demo_page n = \<lparr>url = js ''https://a.example/p'', html = replicate n 0x61\<rparr>"

definition demo_successes :: "fetch_result list" where
  "demo_successes =
     [demo_page 30000, demo_page 30000, demo_page 30000, demo_page 30000,
      demo_page 30000, demo_page 30000, demo_page 1]"

definition demo_source :: "nat \<Rightarrow> source_text" where
  "demo_source n = \<lparr>src_url = js ''https://a.example/p'', text_s = replicate n 0x61\<rparr>"


text \<open>
  Example servers for the robots check: one that cannot be reached, one that answers 404,
  one whose response body cannot be read, and one that serves a robots.txt with a single
  rule at \<open>https://example.com/robots.txt\<close>.
\<close>

definition unreachable_fetch :: "jsstring \<Rightarrow> jsstring \<Rightarrow> exn + fetch_response" where
  "unreachable_fetch robotsUrl userAgent = Inl (TypeError (js ''fetch failed''))"

definition notfound_fetch :: "jsstring \<Rightarrow> jsstring \<Rightarrow> exn + fetch_response" where
  "notfound_fetch robotsUrl userAgent =
     Inr \<lparr>http_status = 404, response_text = Inr (js ''Not Found'')\<rparr>"

definition private_robots :: jsstring where
  "private_robots = js ''User-agent: *\<newline>Disallow: /Private''"

definition broken_body_fetch :: "jsstring \<Rightarrow> jsstring \<Rightarrow> exn + fetch_response" where
  "broken_body_fetch robotsUrl userAgent =
     Inr \<lparr>http_status = 200, response_text = Inl (TypeError (js ''body stream error''))\<rparr>"

definition robots_fetch :: "jsstring \<Rightarrow> jsstring \<Rightarrow> exn + fetch_response" where
  "robots_fetch robotsUrl userAgent =
     (if robotsUrl = js ''https://example.com/robots.txt''
      then Inr \<lparr>http_status = 200, response_text = Inr private_robots\<rparr>
      else Inr \<lparr>http_status = 404, response_text = Inr (js ''Not Found'')\<rparr>)"

text \<open>
  A destination URL with escapes, and the redirector link that carries a destination in
  its \<open>uddg\<close> parameter.
\<close>

definition cpp_url :: jsstring where
  "cpp_url = js ''https://en.wikipedia.org/wiki/C%2B%2B''"

definition redirectorLink :: "jsstring \<Rightarrow> exn + jsstring" where
  "redirectorLink d =
     map_sum id (\<lambda>encoded. js ''https://duckduckgo.com/l/?uddg='' @ encoded)
       (encodeURIComponent d)"



text \<open>
  Eleven candidates in the order of discovery; the tenth does not parse as a URL.
\<close>

definition demo_candidates :: "jsstring list" where
  "demo_candidates =
     [js ''https://example.com/a'', js ''https://github.com/x'', js ''http://plain.example/'',
      js ''https://www.facebook.com/p'', js ''https://docs.python.org/3'',
      js ''https://b.example/'', js ''https://c.example/'', js ''https://ad.doubleclick.net/c'',
      js ''https://d.example/'', js ''https://exa mple.com/'', js ''https://e.example/'']"




section \<open>Unfolding the reference platform\<close>

lemmas std_defs = std_def std_newURL_def parseAbsolute_def plainHost_def plainPath_def plainChar_def
  isAlnum_def isAlpha_def invalidURL_def formParse_def formDecode_def utf8_encode_def
  utf8_decode_lossy_def utf8_lead_def utf16_def utf8_def loneUnit_def isHighSurrogate_def
  isLowSurrogate_def hexValue_def hexDigit_def percentEncoded_def std_decodeURIComponent_def
  continuation_def encodeURIComponent_def encodeCodePoint_def uriUnescaped_def
  formEncode_def formEncodeOctet_def
  asciiLowerCase_def lowerUnit_def js_def

section \<open>Properties of the admission gate\<close>

lemma search_replicate_skip:
  assumes "\<And>q xs. rmatch r q (c # xs) = []"
  shows "search r q (replicate n c @ s) = search r (if n = 0 then q else Some c) s"
  using assms by (induction n arbitrary: q) auto

lemma js_moment: "js ''Just a moment...'' =
  [74, 117, 115, 116, 32, 97, 32, 109, 111, 109, 101, 110, 116, 46, 46, 46]"
  by (simp add: js_def)

lemma moment_signal: "test (lit ''Just a moment...'') (js ''Just a moment...'' @ s)"
  by (simp add: js_moment test_def lit_def canonicalize_def)

lemma moment_in_signals: "lit ''Just a moment...'' \<in> set signals"
  by (simp add: signals_def)

lemma short_page_is_challenge: "isCloudflareChallenge short_challenge_page"
proof -
  have "test (lit ''Just a moment...'') (slice0 200000 short_challenge_page)"
    using moment_signal [of "[]"] by (simp add: short_challenge_page_def slice0_def js_moment)
  then show ?thesis
    unfolding isCloudflareChallenge_def Let_def list_ex_iff using moment_in_signals by blast
qed

lemma long_page_is_challenge: "isCloudflareChallenge long_challenge_page"
proof -
  have "rmatch (lit ''Just a moment...'') q (0x20 # xs) = []" for q xs
    by (simp add: lit_def canonicalize_def)
  then have "test (lit ''Just a moment...'') long_challenge_page"
    unfolding test_def long_challenge_page_def
    using moment_signal [of "[]"] by (simp add: search_replicate_skip test_def lit_def canonicalize_def js_moment)
  moreover have "slice0 200000 long_challenge_page = long_challenge_page"
    by (simp add: slice0_def long_challenge_page_def js_moment)
  ultimately show ?thesis
    unfolding isCloudflareChallenge_def Let_def list_ex_iff using moment_in_signals by metis
qed

lemma long_page_not_caf: "\<not> test re_caf long_challenge_page"
proof -
  have "rmatch re_caf q (0x20 # xs) = []" for q xs
    by (simp add: re_caf_def lit_def canonicalize_def)
  then show ?thesis
    unfolding test_def long_challenge_page_def
    by (simp add: search_replicate_skip js_moment) (simp add: re_caf_def lit_def canonicalize_def)
qed

lemma signals_skip_space: "re \<in> set signals \<Longrightarrow> rmatch re q (0x20 # xs) = []"
  by (auto simp: signals_def lit_def canonicalize_def isWordChar_def)

lemma signals_not_at_end: "re \<in> set signals \<Longrightarrow> rmatch re (Some 0x20) [] = []"
  by (auto simp: signals_def lit_def canonicalize_def isWordChar_def)

lemma blank_not_challenge: "\<not> isCloudflareChallenge (replicate 200000 0x20)"
proof -
  have "\<not> test re (replicate 200000 0x20)" if "re \<in> set signals" for re
  proof -
    have "search re None (replicate 200000 0x20 @ []) = search re (Some 0x20) []"
      using signals_skip_space [OF that] by (subst search_replicate_skip) simp_all
    then show ?thesis using signals_not_at_end [OF that] by (simp add: test_def)
  qed
  then show ?thesis by (simp add: isCloudflareChallenge_def slice0_def list_ex_iff)
qed

lemma late_page_not_caf: "\<not> test re_caf late_challenge_page"
proof -
  have "rmatch re_caf q (0x20 # xs) = []" for q xs
    by (simp add: re_caf_def lit_def canonicalize_def)
  then show ?thesis
    unfolding test_def late_challenge_page_def
    by (simp add: search_replicate_skip js_moment) (simp add: re_caf_def lit_def canonicalize_def)
qed

lemma late_page_admitted:
  "\<not> isCloudflareChallenge late_challenge_page \<and> admission late_challenge_page = None"
proof -
  have "isCloudflareChallenge late_challenge_page = isCloudflareChallenge (replicate 200000 0x20)"
    by (simp add: isCloudflareChallenge_def slice0_def late_challenge_page_def)
  then show ?thesis
    using blank_not_challenge late_page_not_caf
    by (simp add: admission_def looksLikeParkedOrAd_def late_challenge_page_def)
qed

text \<open>
  C2.  Every HTML string of fewer than 400 code units is rejected, whatever it contains: the
  worker returns \<open>null\<close> for the candidate, and the reason it gives is \<open>parked_or_ad\<close>.
\<close>

theorem short_html_is_parked_or_ad:
  "length candidateHtml < 400 \<Longrightarrow>
     admission candidateHtml = Some parked_or_ad
     \<and> (visit B candidateUrl = Inr candidateHtml \<longrightarrow> worker B candidateUrl = None)"
  by (simp add: admission_def looksLikeParkedOrAd_def worker_def)

theorem short_html_is_parked_or_ad_witness:
  "length tiny_page < 400
   \<and> admission tiny_page = Some parked_or_ad
   \<and> visit (browser_showing tiny_page) (js ''https://example.com/'') = Inr tiny_page
   \<and> worker (browser_showing tiny_page) (js ''https://example.com/'') = None"
proof -
  have h: "length tiny_page < 400" by (simp add: tiny_page_def js_def)
  have v: "visit (browser_showing tiny_page) (js ''https://example.com/'') = Inr tiny_page"
    by (simp add: browser_showing_def)
  show ?thesis
    using h v short_html_is_parked_or_ad [OF h, of "browser_showing tiny_page" "js ''https://example.com/''"]
    by simp
qed

text \<open>
  C3, as stated, fails: a page that carries a challenge signature but has fewer than 400
  code units is skipped as \<open>parked_or_ad\<close>, not as a challenge, because the worker names
  the reason by looking at \<open>looksLikeParkedOrAd\<close> first.
\<close>

theorem challenge_signature_counterexample:
  "isCloudflareChallenge short_challenge_page
   \<and> admission short_challenge_page = Some parked_or_ad
   \<and> admission short_challenge_page \<noteq> Some cloudflare_challenge"
proof -
  have "length short_challenge_page < 400" by (simp add: short_challenge_page_def js_moment)
  then have "admission short_challenge_page = Some parked_or_ad"
    by (simp add: admission_def looksLikeParkedOrAd_def)
  then show ?thesis using short_page_is_challenge by simp
qed

text \<open>
  C3, amended.  A page that matches one of the nine signals within its first 200000 code
  units is always rejected (the worker returns \<open>null\<close>); the reason is
  \<open>cloudflare_challenge\<close> when the page has at least 400 code units and does not carry the
  ad-placeholder signature, and \<open>parked_or_ad\<close> otherwise.  Whatever follows the first
  200000 code units has no influence on the challenge test.
\<close>

theorem challenge_signature_rejected:
  "(list_ex (\<lambda>re. test re (take 200000 page)) signals \<longrightarrow> admission page \<noteq> None)
   \<and> (list_ex (\<lambda>re. test re (take 200000 page)) signals \<and> visit B candidateUrl = Inr page
        \<longrightarrow> worker B candidateUrl = None)
   \<and> (list_ex (\<lambda>re. test re (take 200000 page)) signals \<and> 400 \<le> length page
        \<and> \<not> test re_caf page \<longrightarrow> admission page = Some cloudflare_challenge)
   \<and> (list_ex (\<lambda>re. test re (take 200000 page)) signals
        \<and> (length page < 400 \<or> test re_caf page) \<longrightarrow> admission page = Some parked_or_ad)
   \<and> (length pre = 200000 \<longrightarrow> isCloudflareChallenge (pre @ suf) = isCloudflareChallenge pre)"
  by (simp add: admission_def looksLikeParkedOrAd_def isCloudflareChallenge_def slice0_def
      worker_def)

theorem challenge_signature_rejected_witness:
  "list_ex (\<lambda>re. test re (take 200000 long_challenge_page)) signals
   \<and> 400 \<le> length long_challenge_page
   \<and> \<not> test re_caf long_challenge_page
   \<and> admission long_challenge_page = Some cloudflare_challenge
   \<and> visit (browser_showing long_challenge_page) (js ''https://example.com/'')
        = Inr long_challenge_page
   \<and> worker (browser_showing long_challenge_page) (js ''https://example.com/'') = None
   \<and> list_ex (\<lambda>re. test re (take 200000 short_challenge_page)) signals
   \<and> length short_challenge_page < 400
   \<and> admission short_challenge_page = Some parked_or_ad
   \<and> length (replicate 200000 (0x20 :: jschar)) = 200000
   \<and> late_challenge_page = replicate 200000 0x20 @ short_challenge_page
   \<and> isCloudflareChallenge late_challenge_page = isCloudflareChallenge (replicate 200000 0x20)
   \<and> \<not> isCloudflareChallenge late_challenge_page
   \<and> admission late_challenge_page = None"
proof -
  have a: "list_ex (\<lambda>re. test re (take 200000 long_challenge_page)) signals"
    using long_page_is_challenge by (simp add: isCloudflareChallenge_def slice0_def)
  have b: "400 \<le> length long_challenge_page" by (simp add: long_challenge_page_def)
  have c: "list_ex (\<lambda>re. test re (take 200000 short_challenge_page)) signals"
    using short_page_is_challenge by (simp add: isCloudflareChallenge_def slice0_def)
  have d: "length short_challenge_page < 400" by (simp add: short_challenge_page_def js_moment)
  have e: "length (replicate 200000 (0x20 :: jschar)) = 200000" by simp
  have f: "late_challenge_page = replicate 200000 0x20 @ short_challenge_page"
    by (simp add: late_challenge_page_def short_challenge_page_def)
  have v: "visit (browser_showing long_challenge_page) (js ''https://example.com/'')
        = Inr long_challenge_page"
    by (simp add: browser_showing_def)
  show ?thesis
    using a b c d e v long_page_not_caf late_page_admitted
      challenge_signature_rejected [of long_challenge_page "browser_showing long_challenge_page"
        "js ''https://example.com/''" "replicate 200000 0x20" short_challenge_page]
      challenge_signature_rejected [of short_challenge_page _ _ "replicate 200000 0x20"
        short_challenge_page]
    unfolding f [symmetric] by simp
qed

section \<open>Properties of the aggregation\<close>

lemma length_snippet: "length (snippet title rawText) \<le> perSourceLimit"
  by (simp add: snippet_def slice0_def)

lemma sourcesOfSuccesses_limit:
  "s \<in> set (sourcesOfSuccesses d ss) \<Longrightarrow> length (text_s s) \<le> perSourceLimit"
  by (induction ss) (auto simp: Let_def length_snippet split: if_splits)

lemma sourceTexts_limit:
  "s \<in> set (sourceTexts d successes html0 successUrl) \<Longrightarrow> length (text_s s) \<le> perSourceLimit"
  by (auto simp: sourceTexts_def Let_def length_snippet dest: sourcesOfSuccesses_limit
      split: if_splits)

text \<open>
  The loop appends the chunks of a prefix of the sources: \<open>k\<close> of them, where \<open>k\<close> is
  the number of URLs it adds, and the source after the prefix is the first whose chunk
  would not fit.
\<close>

lemma combineLoop_prefix:
  assumes "combineLoop ss c u = (c', u')"
  shows "\<exists>k \<le> length ss. c' = c @ concat (map nextChunk (take k ss))
           \<and> u' = u @ map src_url (take k ss)
           \<and> (k < length ss \<longrightarrow> maxTotal < length c' + length (nextChunk (ss ! k)))"
  using assms
proof (induction ss arbitrary: c u)
  case Nil
  then show ?case by simp
next
  case (Cons s ss)
  show ?case
  proof (cases "length c + length (nextChunk s) > maxTotal")
    case True
    with Cons.prems have "c' = c" "u' = u" by simp_all
    with True show ?thesis by (intro exI [of _ 0]) simp
  next
    case False
    with Cons.prems have "combineLoop ss (c @ nextChunk s) (u @ [src_url s]) = (c', u')"
      by simp
    from Cons.IH [OF this] obtain k where k: "k \<le> length ss"
      "c' = (c @ nextChunk s) @ concat (map nextChunk (take k ss))"
      "u' = (u @ [src_url s]) @ map src_url (take k ss)"
      "k < length ss \<longrightarrow> maxTotal < length c' + length (nextChunk (ss ! k))"
      by blast
    then show ?thesis by (intro exI [of _ "Suc k"]) simp
  qed
qed

lemma combineLoop_bound:
  "combineLoop ss c u = (c', u') \<Longrightarrow> length c \<le> maxTotal \<Longrightarrow> length c' \<le> maxTotal"
  by (induction ss arbitrary: c u) (auto split: if_splits)

lemma combine_prefix:
  assumes "combine srcs = (combined, usedUrls)"
  shows "length usedUrls \<le> length srcs"
    and "combined = concat (map nextChunk (take (length usedUrls) srcs))"
    and "usedUrls = map src_url (take (length usedUrls) srcs)"
    and "length usedUrls < length srcs \<Longrightarrow>
           maxTotal < length combined + length (nextChunk (srcs ! length usedUrls))"
proof -
  from combineLoop_prefix [OF assms [unfolded combine_def]] obtain k where k: "k \<le> length srcs"
    "combined = concat (map nextChunk (take k srcs))" "usedUrls = map src_url (take k srcs)"
    "k < length srcs \<longrightarrow> maxTotal < length combined + length (nextChunk (srcs ! k))"
    by auto
  then have "length usedUrls = k" by simp
  with k show "length usedUrls \<le> length srcs"
    and "combined = concat (map nextChunk (take (length usedUrls) srcs))"
    and "usedUrls = map src_url (take (length usedUrls) srcs)"
    and "length usedUrls < length srcs \<Longrightarrow>
           maxTotal < length combined + length (nextChunk (srcs ! length usedUrls))"
    by simp_all
qed

text \<open>
  C1.  Whatever the sources are, the combined text has at most 120000 code units; every
  per-source text was cut to at most 20000 code units before the chunks were built; the
  URLs used and the combined text are those of a prefix of the source list, chunk by
  chunk and nothing cut; and when the prefix is not the whole list, the chunk of the
  next source is the first that would have pushed the length over 120000 (the loop
  breaks there and looks at no later source).
\<close>

theorem aggregation_within_budget:
  assumes "combine (sourceTexts d successes page successUrl) = (combined, usedUrls)"
  shows "length combined \<le> 120000
    \<and> (\<forall>s \<in> set (sourceTexts d successes page successUrl). length (text_s s) \<le> 20000)
    \<and> length usedUrls \<le> length (sourceTexts d successes page successUrl)
    \<and> usedUrls = map src_url (take (length usedUrls) (sourceTexts d successes page successUrl))
    \<and> combined
        = concat (map nextChunk (take (length usedUrls) (sourceTexts d successes page successUrl)))
    \<and> (length usedUrls < length (sourceTexts d successes page successUrl) \<longrightarrow>
          120000 < length combined
             + length (nextChunk (sourceTexts d successes page successUrl ! length usedUrls)))"
proof -
  have "length combined \<le> maxTotal"
    using assms combineLoop_bound [of _ "[]" "[]" combined usedUrls] by (simp add: combine_def)
  moreover have
    "\<forall>s \<in> set (sourceTexts d successes page successUrl). length (text_s s) \<le> perSourceLimit"
    using sourceTexts_limit by blast
  ultimately show ?thesis
    using combine_prefix [OF assms] by (simp add: maxTotal_def perSourceLimit_def)
qed

lemma trim_id:
  assumes "s \<noteq> []" "\<not> isWhiteSpace (hd s)" "\<not> isWhiteSpace (last s)"
  shows "trim s = s"
proof -
  have a: "dropWhile isWhiteSpace s = s" using assms(1,2) by (cases s) auto
  obtain x xs where r: "rev s = x # xs" using assms(1) by (cases "rev s") auto
  then have "\<not> isWhiteSpace x" using hd_rev [of s] assms(3) by simp
  then have b: "dropWhile isWhiteSpace (rev s) = rev s"
    unfolding r by simp
  show ?thesis by (simp add: trim_def a b)
qed

lemma demo_page_source:
  assumes n: "0 < n"
  shows "sourcesOfSuccesses demo_dom (demo_page n # ss)
           = demo_source (min 20000 n) # sourcesOfSuccesses demo_dom ss"
proof -
  have "trim (replicate n (0x61 :: jschar)) = replicate n 0x61"
    using n by (intro trim_id) (auto simp: isWhiteSpace_def)
  moreover have "replicate n (0x61 :: jschar) \<noteq> []" using n by simp
  ultimately show ?thesis
    by (simp add: demo_dom_def demo_page_def demo_source_def Let_def snippet_def slice0_def
        perSourceLimit_def min_def)
qed

lemma demo_sources:
  "sourceTexts demo_dom demo_successes [] None
     = [demo_source 20000, demo_source 20000, demo_source 20000, demo_source 20000,
        demo_source 20000, demo_source 20000, demo_source 1]"
  by (simp add: sourceTexts_def demo_successes_def demo_page_source
      del: sourcesOfSuccesses.simps(2))

lemma length_demo_chunk: "length (nextChunk (demo_source n)) = 32 + n"
  by (simp add: nextChunk_def demo_source_def js_def)

lemma demo_combine:
  "combine [demo_source 20000, demo_source 20000, demo_source 20000, demo_source 20000,
        demo_source 20000, demo_source 20000, demo_source 1]
     = (concat (map nextChunk [demo_source 20000, demo_source 20000, demo_source 20000,
           demo_source 20000, demo_source 20000]),
        map src_url [demo_source 20000, demo_source 20000, demo_source 20000,
           demo_source 20000, demo_source 20000])"
  by (simp add: combine_def length_demo_chunk maxTotal_def)

theorem aggregation_within_budget_witness:
  "combine (sourceTexts demo_dom demo_successes [] None)
     = (concat (map nextChunk [demo_source 20000, demo_source 20000, demo_source 20000,
           demo_source 20000, demo_source 20000]),
        map src_url [demo_source 20000, demo_source 20000, demo_source 20000,
           demo_source 20000, demo_source 20000])
   \<and> length (concat (map nextChunk [demo_source 20000, demo_source 20000, demo_source 20000,
           demo_source 20000, demo_source 20000])) = 100160
   \<and> length (sourceTexts demo_dom demo_successes [] None) = 7
   \<and> length (nextChunk (sourceTexts demo_dom demo_successes [] None ! 5)) = 20032
   \<and> length (nextChunk (sourceTexts demo_dom demo_successes [] None ! 6)) = 33
   \<and> text_s (sourceTexts demo_dom demo_successes [] None ! 0) = replicate 20000 0x61"
proof -
  have h: "combine (sourceTexts demo_dom demo_successes [] None)
     = (concat (map nextChunk [demo_source 20000, demo_source 20000, demo_source 20000,
           demo_source 20000, demo_source 20000]),
        map src_url [demo_source 20000, demo_source 20000, demo_source 20000,
           demo_source 20000, demo_source 20000])"
    by (simp only: demo_sources demo_combine)
  have t: "text_s (demo_source 20000) = replicate 20000 0x61"
    by (simp add: demo_source_def)
  show ?thesis
    using aggregation_within_budget [OF h] h
    by (simp add: demo_sources length_demo_chunk t)
qed

section \<open>Properties of the search query\<close>

lemma normalizedQuery_map:
  "normalizedQuery query = map (\<lambda>c. if c = 0x2B then 0x20 else c) query"
  by (induction query) (simp_all add: normalizedQuery_def js_def)

lemma in_set_dropWhile: "x \<in> set xs \<Longrightarrow> \<not> P x \<Longrightarrow> x \<in> set (dropWhile P xs)"
  by (induction xs) auto

lemma plus_in_trim: "0x2B \<in> set (trim v) \<longleftrightarrow> 0x2B \<in> set v"
proof
  assume "0x2B \<in> set (trim v)"
  then have "0x2B \<in> set (dropWhile isWhiteSpace (rev (dropWhile isWhiteSpace v)))"
    by (simp add: trim_def)
  then have "0x2B \<in> set (rev (dropWhile isWhiteSpace v))" by (rule set_dropWhileD)
  then show "0x2B \<in> set v" using set_dropWhileD [of "0x2B" isWhiteSpace v] by simp
next
  assume a: "0x2B \<in> set v"
  have nw: "\<not> isWhiteSpace 0x2B" by (simp add: isWhiteSpace_def)
  from a nw have "0x2B \<in> set (dropWhile isWhiteSpace v)" by (rule in_set_dropWhile)
  then have "0x2B \<in> set (rev (dropWhile isWhiteSpace v))" by simp
  then have "0x2B \<in> set (dropWhile isWhiteSpace (rev (dropWhile isWhiteSpace v)))"
    using nw by (rule in_set_dropWhile)
  then show "0x2B \<in> set (trim v)" by (simp add: trim_def)
qed

text \<open>
  C10.  The query that is searched is the trimmed \<open>q\<close> parameter with every \<open>+\<close> replaced
  by a space: it contains no \<open>+\<close>, it differs from the trimmed parameter exactly when
  the parameter contains a \<open>+\<close> (trimming removes none), and the search URL is built
  from it.
\<close>

theorem plus_becomes_space:
  "normalizedQuery (query_of q) = map (\<lambda>c. if c = 0x2B then 0x20 else c) (query_of q)
   \<and> 0x2B \<notin> set (normalizedQuery (query_of q))
   \<and> (0x2B \<in> set (query_of q) \<longrightarrow> normalizedQuery (query_of q) \<noteq> query_of q)
   \<and> (0x2B \<notin> set (query_of q) \<longrightarrow> normalizedQuery (query_of q) = query_of q)
   \<and> (0x2B \<in> set (query_of (Some v)) \<longleftrightarrow> 0x2B \<in> set v)
   \<and> searchUrl P (query_of q)
       = js ''https://html.duckduckgo.com/html/?''
         @ urlSearchParamsToString P
             [(js ''q'', map (\<lambda>c. if c = 0x2B then 0x20 else c) (query_of q))]"
proof -
  have a: "0x2B \<notin> set (normalizedQuery s)" for s
    by (auto simp: normalizedQuery_map)
  have b: "0x2B \<in> set s \<Longrightarrow> normalizedQuery s \<noteq> s" for s
    using a [of s] by auto
  have c: "0x2B \<notin> set s \<Longrightarrow> normalizedQuery s = s" for s
    by (induction s) (auto simp: normalizedQuery_map)
  show ?thesis
    using a b c by (simp add: normalizedQuery_map [symmetric] searchUrl_def query_of_def plus_in_trim)
qed

theorem plus_becomes_space_witness:
  "0x2B \<in> set (query_of (Some (js '' C++ '')))
   \<and> query_of (Some (js '' C++ '')) = js ''C++''
   \<and> normalizedQuery (query_of (Some (js '' C++ ''))) = js ''C  ''
   \<and> normalizedQuery (query_of (Some (js '' C++ ''))) \<noteq> query_of (Some (js '' C++ ''))
   \<and> searchUrl std (query_of (Some (js '' C++ ''))) = js ''https://html.duckduckgo.com/html/?q=C++''
   \<and> 0x2B \<notin> set (query_of (Some (js ''a b '')))
   \<and> normalizedQuery (query_of (Some (js ''a b ''))) = js ''a b''
   \<and> searchUrl std (query_of (Some (js ''a b ''))) = js ''https://html.duckduckgo.com/html/?q=a+b''"
proof -
  have a: "query_of (Some (js '' C++ '')) = js ''C++''"
    by (simp add: query_of_def trim_def js_def isWhiteSpace_def)
  have b: "query_of (Some (js ''a b '')) = js ''a b''"
    by (simp add: query_of_def trim_def js_def isWhiteSpace_def)
  have c: "0x2B \<in> set (js ''C++'')" "0x2B \<notin> set (js ''a b'')"
    by (simp_all add: js_def)
  have m: "map (\<lambda>c. if c = 0x2B then 0x20 else c) (js ''C++'') = js ''C  ''"
    "map (\<lambda>c. if c = 0x2B then 0x20 else c) (js ''a b'') = js ''a b''"
    by (simp_all add: js_def)
  have d: "js ''https://html.duckduckgo.com/html/?'' @ urlSearchParamsToString std [(js ''q'', js ''C  '')]
             = js ''https://html.duckduckgo.com/html/?q=C++''"
    "js ''https://html.duckduckgo.com/html/?'' @ urlSearchParamsToString std [(js ''q'', js ''a b'')]
             = js ''https://html.duckduckgo.com/html/?q=a+b''"
    by (simp_all add: std_defs)
  have n: "js ''C  '' \<noteq> js ''C++''" by (simp add: js_def)
  show ?thesis
    using c n plus_becomes_space [of "Some (js '' C++ '')" _ std]
      plus_becomes_space [of "Some (js ''a b '')" _ std]
    unfolding a b m d by simp
qed

section \<open>Properties of scoring and ranking\<close>

lemma insertBy_insort:
  "insertBy (\<lambda>a b. snd b - snd a) x ys = insort_key (\<lambda>p. - snd p) x (ys :: ('a \<times> int) list)"
  by (induction ys) auto

lemma sortBy_sort_key:
  "sortBy (\<lambda>a b. snd b - snd a) xs = sort_key (\<lambda>p. - snd p) (xs :: ('a \<times> int) list)"
  by (simp add: sortBy_def sort_key_def insertBy_insort [abs_def])

lemma insort_key_map: "insort_key g (h x) (map h ys) = map h (insort_key (\<lambda>a. g (h a)) x ys)"
  by (induction ys) auto

lemma sort_key_map: "sort_key g (map h xs) = map h (sort_key (\<lambda>a. g (h a)) xs)"
  by (induction xs) (simp_all add: insort_key_map)

lemma rankedCandidates_sort:
  "rankedCandidates P cands = take 8 (sort_key (\<lambda>u. - scoreDomain P u) cands)"
  by (simp add: rankedCandidates_def sortBy_sort_key sort_key_map slice0_def take_map comp_def)

lemma filter_take_prefix:
  "filter Q (take n xs) = take (length (filter Q (take n xs))) (filter Q xs)"
proof -
  have "filter Q xs = filter Q (take n xs) @ filter Q (drop n xs)"
    by (metis append_take_drop_id filter_append)
  then show ?thesis by simp
qed

text \<open>
  C8.  The score of a URL is the sum of the five adjustments, or \<open>-1\<close> when the URL does
  not parse.  The ranked candidates are sorted by descending score; among candidates of
  equal score the order of discovery is kept; at most eight are kept, and they are the
  best: no candidate that was dropped scores higher than one that was kept.
\<close>

theorem candidates_ranked_by_score:
  "scoreDomain P u =
     (case newURL P u None of
        Inl e \<Rightarrow> - 1
      | Inr urlObj \<Rightarrow>
          (if test re_quality (toLowerCase P (hostname urlObj)) then 3 else 0)
          + (if test re_social (toLowerCase P (hostname urlObj)) then - 5 else 0)
          + (if test re_adtrack (toLowerCase P (hostname urlObj)) then - 10 else 0)
          + (if startsWith u (js ''https://'') then 1 else 0)
          + (if length u < 100 then 1 else 0))
   \<and> sorted_wrt (\<lambda>a b. scoreDomain P a \<ge> scoreDomain P b) (rankedCandidates P cands)
   \<and> (\<forall>k. filter (\<lambda>c. scoreDomain P c = k) (rankedCandidates P cands)
          = take (length (filter (\<lambda>c. scoreDomain P c = k) (rankedCandidates P cands)))
              (filter (\<lambda>c. scoreDomain P c = k) cands))
   \<and> length (rankedCandidates P cands) = min 8 (length cands)
   \<and> mset (rankedCandidates P cands) \<subseteq># mset cands
   \<and> (\<forall>x \<in> set (rankedCandidates P cands). \<forall>y \<in># mset cands - mset (rankedCandidates P cands).
          scoreDomain P y \<le> scoreDomain P x)"
proof -
  let ?f = "\<lambda>c. - scoreDomain P c"
  let ?S = "sort_key ?f cands"
  have r: "rankedCandidates P cands = take 8 ?S" by (rule rankedCandidates_sort)
  have s: "sorted (map ?f ?S)" by (rule sorted_sort_key)
  have 1: "scoreDomain P u =
     (case newURL P u None of
        Inl e \<Rightarrow> - 1
      | Inr urlObj \<Rightarrow>
          (if test re_quality (toLowerCase P (hostname urlObj)) then 3 else 0)
          + (if test re_social (toLowerCase P (hostname urlObj)) then - 5 else 0)
          + (if test re_adtrack (toLowerCase P (hostname urlObj)) then - 10 else 0)
          + (if startsWith u (js ''https://'') then 1 else 0)
          + (if length u < 100 then 1 else 0))"
    by (simp add: scoreDomain_def Let_def split: sum.splits)
  have "sorted_wrt (\<lambda>a b. scoreDomain P a \<ge> scoreDomain P b) ?S"
    using s by (simp add: sorted_map sorted_wrt_iff_nth_less)
  then have 2: "sorted_wrt (\<lambda>a b. scoreDomain P a \<ge> scoreDomain P b) (rankedCandidates P cands)"
    unfolding r by (rule sorted_wrt_take)
  have st: "filter (\<lambda>c. scoreDomain P c = k) ?S = filter (\<lambda>c. scoreDomain P c = k) cands" for k
    using sort_key_stable [of ?f "- k" cands] by simp
  have 3: "filter (\<lambda>c. scoreDomain P c = k) (rankedCandidates P cands)
          = take (length (filter (\<lambda>c. scoreDomain P c = k) (rankedCandidates P cands)))
              (filter (\<lambda>c. scoreDomain P c = k) cands)" for k
    unfolding r using filter_take_prefix [of "\<lambda>c. scoreDomain P c = k" 8 ?S] by (simp only: st)
  have 4: "length (rankedCandidates P cands) = min 8 (length cands)"
    unfolding r by (simp add: min.commute)
  have m: "mset cands = mset (take 8 ?S) + mset (drop 8 ?S)"
    by (metis append_take_drop_id mset_append mset_sort)
  then have 5: "mset (rankedCandidates P cands) \<subseteq># mset cands"
    unfolding r by simp
  have d: "mset cands - mset (rankedCandidates P cands) = mset (drop 8 ?S)"
    unfolding r using m by simp
  have "sorted (map ?f (take 8 ?S @ drop 8 ?S))" using s by simp
  then have "\<forall>x \<in> set (take 8 ?S). \<forall>y \<in> set (drop 8 ?S). ?f x \<le> ?f y"
    unfolding map_append sorted_append by auto
  then have 6: "\<forall>x \<in> set (rankedCandidates P cands).
       \<forall>y \<in># mset cands - mset (rankedCandidates P cands). scoreDomain P y \<le> scoreDomain P x"
    unfolding d unfolding r by simp
  from 1 2 3 4 5 6 show ?thesis by blast
qed

lemmas score_defs = scoreDomain_def test_def re_quality_def re_social_def re_adtrack_def lit_def
  canonicalize_def

lemma score_example: "scoreDomain std (js ''https://example.com/a'') = 2"
  by (simp add: score_defs std_defs)

lemma score_github: "scoreDomain std (js ''https://github.com/x'') = 5"
  by (simp add: score_defs std_defs)

lemma score_plain: "scoreDomain std (js ''http://plain.example/'') = 1"
  by (simp add: score_defs std_defs)

lemma score_facebook: "scoreDomain std (js ''https://www.facebook.com/p'') = - 3"
  by (simp add: score_defs std_defs)

lemma score_docs: "scoreDomain std (js ''https://docs.python.org/3'') = 5"
  by (simp add: score_defs std_defs)

lemma score_doubleclick: "scoreDomain std (js ''https://ad.doubleclick.net/c'') = - 8"
  by (simp add: score_defs std_defs)

lemma score_unparsable: "scoreDomain std (js ''https://exa mple.com/'') = - 1"
  by (simp add: score_defs std_defs)

lemma score_b: "scoreDomain std (js ''https://b.example/'') = 2"
  by (simp add: score_defs std_defs)

lemma score_c: "scoreDomain std (js ''https://c.example/'') = 2"
  by (simp add: score_defs std_defs)

lemma score_d: "scoreDomain std (js ''https://d.example/'') = 2"
  by (simp add: score_defs std_defs)

lemma score_e: "scoreDomain std (js ''https://e.example/'') = 2"
  by (simp add: score_defs std_defs)

lemmas demo_scores = score_example score_github score_plain score_facebook score_docs score_b
  score_c score_doubleclick score_d score_unparsable score_e

lemma demo_ranked:
  "rankedCandidates std demo_candidates
     = [js ''https://github.com/x'', js ''https://docs.python.org/3'', js ''https://example.com/a'',
        js ''https://b.example/'', js ''https://c.example/'', js ''https://d.example/'',
        js ''https://e.example/'', js ''http://plain.example/'']"
  by (simp add: rankedCandidates_def demo_candidates_def demo_scores sortBy_def slice0_def)

lemma demo_dropped:
  "mset demo_candidates - mset (rankedCandidates std demo_candidates)
     = {#js ''https://www.facebook.com/p'', js ''https://ad.doubleclick.net/c'',
         js ''https://exa mple.com/''#}"
  unfolding demo_ranked by (simp add: demo_candidates_def js_def)

theorem candidates_ranked_by_score_witness:
  "rankedCandidates std demo_candidates
     = [js ''https://github.com/x'', js ''https://docs.python.org/3'', js ''https://example.com/a'',
        js ''https://b.example/'', js ''https://c.example/'', js ''https://d.example/'',
        js ''https://e.example/'', js ''http://plain.example/'']
   \<and> newURL std (js ''https://exa mple.com/'') None = Inl invalidURL
   \<and> scoreDomain std (js ''https://exa mple.com/'') = - 1
   \<and> scoreDomain std (js ''https://github.com/x'') = 5
   \<and> scoreDomain std (js ''https://www.facebook.com/p'') = - 3
   \<and> scoreDomain std (js ''https://ad.doubleclick.net/c'') = - 8
   \<and> scoreDomain std (js ''http://plain.example/'') = 1
   \<and> js ''http://plain.example/'' \<in> set (rankedCandidates std demo_candidates)
   \<and> js ''https://exa mple.com/''
        \<in># mset demo_candidates - mset (rankedCandidates std demo_candidates)
   \<and> scoreDomain std (js ''https://exa mple.com/'') \<le> scoreDomain std (js ''http://plain.example/'')"
proof -
  have p: "newURL std (js ''https://exa mple.com/'') None = Inl invalidURL"
    by (simp add: std_defs)
  have x: "js ''http://plain.example/'' \<in> set (rankedCandidates std demo_candidates)"
    unfolding demo_ranked by simp
  have y: "js ''https://exa mple.com/''
        \<in># mset demo_candidates - mset (rankedCandidates std demo_candidates)"
    unfolding demo_dropped by simp
  from candidates_ranked_by_score [of std "js ''https://exa mple.com/''" demo_candidates] x y
  have "scoreDomain std (js ''https://exa mple.com/'') \<le> scoreDomain std (js ''http://plain.example/'')"
    by blast
  with p x y show ?thesis
    by (simp add: demo_ranked demo_scores)
qed

section \<open>Properties of the gather-mode runner\<close>



























section \<open>Properties of the robots.txt check\<close>

text \<open>
  C5.  The robots check answers \<open>true\<close> whenever the URL does not parse, the fetch of
  robots.txt throws, the response is not a 2xx, or reading its text throws; an exception
  raised anywhere in the \<open>try\<close> block ends in the \<open>catch\<close>, which answers \<open>true\<close>.  The
  function has no way to throw: its result is a Boolean in every case.
\<close>

theorem robots_fail_open:
  "(newURL P u None = Inl e \<longrightarrow> checkRobotsTxt P fetch u userAgent)
   \<and> (newURL P u None = Inr urlObj
        \<and> fetch (protocol urlObj @ js ''//'' @ host urlObj @ js ''/robots.txt'') userAgent = Inl e
        \<longrightarrow> checkRobotsTxt P fetch u userAgent)
   \<and> (newURL P u None = Inr urlObj
        \<and> fetch (protocol urlObj @ js ''//'' @ host urlObj @ js ''/robots.txt'') userAgent
            = Inr response
        \<and> \<not> (200 \<le> http_status response \<and> http_status response \<le> 299)
        \<longrightarrow> checkRobotsTxt P fetch u userAgent)
   \<and> (newURL P u None = Inr urlObj
        \<and> fetch (protocol urlObj @ js ''//'' @ host urlObj @ js ''/robots.txt'') userAgent
            = Inr response
        \<and> response_text response = Inl e
        \<longrightarrow> checkRobotsTxt P fetch u userAgent)
   \<and> (checkRobotsTxt_try P fetch u userAgent = Inl e \<longrightarrow> checkRobotsTxt P fetch u userAgent)"
  by (simp add: checkRobotsTxt_def checkRobotsTxt_try_def ok_def)

lemma example_page_url:
  "newURL std (js ''https://example.com/Private/data'') None
     = Inr \<lparr>toString = js ''https://example.com/Private/data'', protocol = js ''https:'',
            host = js ''example.com'', hostname = js ''example.com'',
            pathname = js ''/Private/data'', searchParams = []\<rparr>"
  by (simp add: std_defs)

lemma not_a_url: "newURL std (js ''not a url'') None = Inl invalidURL"
  by (simp add: std_defs)

lemma robots_url: "js ''https:'' @ js ''//'' @ js ''example.com'' @ js ''/robots.txt'' = js ''https://example.com/robots.txt''"
  by (simp add: js_def)

theorem robots_fail_open_witness:
  "newURL std (js ''not a url'') None = Inl invalidURL
   \<and> checkRobotsTxt std unreachable_fetch (js ''not a url'') (js ''MyBot'')
   \<and> unreachable_fetch (js ''https://example.com/robots.txt'') (js ''MyBot'')
        = Inl (TypeError (js ''fetch failed''))
   \<and> checkRobotsTxt_try std unreachable_fetch (js ''https://example.com/Private/data'') (js ''MyBot'')
        = Inl (TypeError (js ''fetch failed''))
   \<and> checkRobotsTxt std unreachable_fetch (js ''https://example.com/Private/data'') (js ''MyBot'')
   \<and> notfound_fetch (js ''https://example.com/robots.txt'') (js ''MyBot'')
        = Inr \<lparr>http_status = 404, response_text = Inr (js ''Not Found'')\<rparr>
   \<and> checkRobotsTxt std notfound_fetch (js ''https://example.com/Private/data'') (js ''MyBot'')
   \<and> broken_body_fetch (js ''https://example.com/robots.txt'') (js ''MyBot'')
        = Inr \<lparr>http_status = 200, response_text = Inl (TypeError (js ''body stream error''))\<rparr>
   \<and> checkRobotsTxt std broken_body_fetch (js ''https://example.com/Private/data'') (js ''MyBot'')"
proof -
  let ?u = "js ''https://example.com/Private/data''"
  let ?o = "\<lparr>toString = js ''https://example.com/Private/data'', protocol = js ''https:'',
            host = js ''example.com'', hostname = js ''example.com'',
            pathname = js ''/Private/data'', searchParams = []\<rparr>"
  have a: "unreachable_fetch (protocol ?o @ js ''//'' @ host ?o @ js ''/robots.txt'') (js ''MyBot'')
        = Inl (TypeError (js ''fetch failed''))"
    by (simp add: unreachable_fetch_def)
  have b: "notfound_fetch (protocol ?o @ js ''//'' @ host ?o @ js ''/robots.txt'') (js ''MyBot'')
        = Inr \<lparr>http_status = 404, response_text = Inr (js ''Not Found'')\<rparr>"
    by (simp add: notfound_fetch_def)
  have c: "broken_body_fetch (protocol ?o @ js ''//'' @ host ?o @ js ''/robots.txt'') (js ''MyBot'')
        = Inr \<lparr>http_status = 200, response_text = Inl (TypeError (js ''body stream error''))\<rparr>"
    by (simp add: broken_body_fetch_def)
  have t: "checkRobotsTxt_try std unreachable_fetch ?u (js ''MyBot'')
        = Inl (TypeError (js ''fetch failed''))"
    by (simp add: checkRobotsTxt_try_def example_page_url unreachable_fetch_def)
  show ?thesis
    using not_a_url example_page_url a b c t
      robots_fail_open [of std "js ''not a url''" invalidURL unreachable_fetch "js ''MyBot''"]
      robots_fail_open [of std ?u "TypeError (js ''fetch failed'')" unreachable_fetch "js ''MyBot''" ?o]
      robots_fail_open [of std ?u _ notfound_fetch "js ''MyBot''" ?o
         "\<lparr>http_status = 404, response_text = Inr (js ''Not Found'')\<rparr>"]
      robots_fail_open [of std ?u "TypeError (js ''body stream error'')" broken_body_fetch
         "js ''MyBot''" ?o
         "\<lparr>http_status = 200, response_text = Inl (TypeError (js ''body stream error''))\<rparr>"]
    by (simp add: unreachable_fetch_def notfound_fetch_def broken_body_fetch_def)
qed

lemma private_robots_parsed:
  "parseRobots std (js ''MyBot'') private_robots
     = \<lparr>currentUserAgent = js ''*'', disallowedPaths = [js ''/private''], allowedPaths = []\<rparr>"
  by (simp add: parseRobots_def private_robots_def robotsLine_def js_def trim_def isWhiteSpace_def
      std_def asciiLowerCase_def lowerUnit_def Let_def substring_from_def)

lemma private_spec:
  "spec_disallowed std private_robots (js ''MyBot'') (js ''/Private/data'')"
  by (simp add: spec_disallowed_def private_robots_def spec_robotsLine_def js_def trim_def
      isWhiteSpace_def std_def asciiLowerCase_def lowerUnit_def substring_from_def)

text \<open>
  C6 is not what the code does.  The loop lower-cases each whole line before it cuts the
  path out of it, so the path that is recorded for \<open>Disallow: /Private\<close> is \<open>/private\<close>,
  and the comparison with the path of the URL, which keeps its case, fails:
  \<open>https://example.com/Private/data\<close> is judged allowed although a \<open>Disallow\<close> path of
  the \<open>*\<close> group is a prefix of its path.
\<close>

theorem robots_path_case_divergence:
  "checkRobotsTxt std robots_fetch (js ''https://example.com/Private/data'') (js ''MyBot'')
   \<and> spec_disallowed std private_robots (js ''MyBot'') (js ''/Private/data'')
   \<and> disallowedPaths (parseRobots std (js ''MyBot'') private_robots) = [js ''/private'']"
proof -
  have "checkRobotsTxt_try std robots_fetch (js ''https://example.com/Private/data'') (js ''MyBot'')
          = Inr (pathAllowed (js ''/Private/data'') [js ''/private''])"
    by (simp add: checkRobotsTxt_try_def example_page_url robots_url robots_fetch_def ok_def
        private_robots_parsed)
  moreover have "pathAllowed (js ''/Private/data'') [js ''/private'']"
    by (simp add: js_def)
  ultimately show ?thesis
    using private_spec by (simp add: checkRobotsTxt_def private_robots_parsed)
qed

section \<open>Properties of the candidate phase\<close>











lemma cpp_link:
  "redirectorLink cpp_url
     = Inr (js ''https://duckduckgo.com/l/?uddg=https%3A%2F%2Fen.wikipedia.org%2Fwiki%2FC%252B%252B'')"
  by (simp add: redirectorLink_def cpp_url_def std_defs)

lemma cpp_normalized:
  "normalizeDuckHref std
     (js ''https://duckduckgo.com/l/?uddg=https%3A%2F%2Fen.wikipedia.org%2Fwiki%2FC%252B%252B'')
     = Inr (js ''https://en.wikipedia.org/wiki/C++'')"
  by (simp add: normalizeDuckHref_def std_defs)

text \<open>
  C4 is not what the code does.  \<open>searchParams.get\<close> already returns the decoded value of
  \<open>uddg\<close>, and \<open>normalizeDuckHref\<close> applies \<open>decodeURIComponent\<close> to it once more.  A
  destination that itself contains an escape does not come back: wrapped and normalised,
  \<open>https://en.wikipedia.org/wiki/C%2B%2B\<close> becomes \<open>https://en.wikipedia.org/wiki/C++\<close>.
\<close>

theorem redirector_roundtrip_divergence:
  "redirectorLink cpp_url
     = Inr (js ''https://duckduckgo.com/l/?uddg=https%3A%2F%2Fen.wikipedia.org%2Fwiki%2FC%252B%252B'')
   \<and> normalizeDuckHref std
        (js ''https://duckduckgo.com/l/?uddg=https%3A%2F%2Fen.wikipedia.org%2Fwiki%2FC%252B%252B'')
       = Inr (js ''https://en.wikipedia.org/wiki/C++'')
   \<and> js ''https://en.wikipedia.org/wiki/C++'' \<noteq> cpp_url"
  using cpp_link cpp_normalized by (simp add: cpp_url_def js_def)

end
